theory Spec2Isabelle
  imports Main "HOL-Library.Word"
begin

section \<open>Data model of the server connection\<close>

text \<open>
  The development follows \<^verbatim>\<open>boost/network/protocol/http/connection.hpp\<close>.
  A \<^verbatim>\<open>connection<Tag,Handler>\<close> owns a socket, a fixed read buffer, a request
  parser, the request being read and the response being built. Every member function of
  the class is a completion callback of one asynchronous socket operation, so the class
  is a state machine driven by completions.
\<close>

text \<open>\<^verbatim>\<open>size_t\<close>: an unsigned 64-bit integer; subtraction wraps around.\<close>

type_synonym size_t = "64 word"

text \<open>\<^verbatim>\<open>boost::tribool\<close>, the result of the parser.\<close>

datatype tribool = False3 | True3 | Indeterminate

text \<open>A non-zero \<^verbatim>\<open>boost::system::error_code\<close> is identified by its number.\<close>

type_synonym error_code = nat

text \<open>
  The request and response types (\<^verbatim>\<open>request.hpp\<close>, \<^verbatim>\<open>response.hpp\<close>) are not
  part of the sources at hand. The connection reads \<^verbatim>\<open>method\<close> (here
  \<open>http_method\<close>), \<^verbatim>\<open>headers\<close> (each with \<^verbatim>\<open>name\<close> and \<^verbatim>\<open>value\<close>, here
  \<open>val\<close>) and \<^verbatim>\<open>body\<close> of a request; the remaining
  fields are those of the data model of the specification (target, protocol version;
  status code, headers and content of a response).
\<close>

record request_header =
  name :: string
  val :: string

record request =
  http_method :: string
  target :: string
  version :: string
  headers :: "request_header list"
  body :: string

record response =
  status :: nat
  response_headers :: "request_header list"
  content :: string

text \<open>
  What the connection does to its collaborators, in the order it does it: calls of the
  handler (with the request as it is at the call), of the handler's logging hook, and
  operations started on the socket.
\<close>

datatype effect =
    Handler_call request
  | Handler_log error_code
  | Async_read_some
  | Async_read_at_least size_t
  | Async_write response
  | Shutdown_both

text \<open>
  The callback bound to the one outstanding asynchronous operation. \<open>No_operation\<close>:
  nothing is outstanding, no callback of this connection will run again.
\<close>

datatype pending =
    Read_headers
  | Read_body_contents size_t
  | Write
  | No_operation

text \<open>\<^verbatim>\<open>BOOST_HTTP_SERVER_BUFFER_SIZE\<close>, at its default.\<close>

definition BOOST_HTTP_SERVER_BUFFER_SIZE :: nat where
  "BOOST_HTTP_SERVER_BUFFER_SIZE = 1024"

text \<open>
  The members of the class (\<^verbatim>\<open>buffer_\<close>, \<^verbatim>\<open>parser_\<close>, \<^verbatim>\<open>request_\<close>,
  \<^verbatim>\<open>response_\<close>; an identifier cannot end in an underscore here, so they are \<open>m_buffer\<close>
  and so on),
  together with the outstanding operation and the effects so far. The parser state is a
  type parameter.
\<close>

record 'p connection =
  m_buffer :: string
  m_parser :: 'p
  m_request :: request
  m_response :: response
  outstanding :: pending
  effects :: "effect list"

text \<open>
  The collaborators of the connection that are not in the sources at hand:
  \<^item> \<open>parse_headers\<close>: \<^verbatim>\<open>request_parser::parse_headers(request, begin, end)\<close>; it returns
    the tribool and the number of bytes consumed, and updates the parser and the request;
  \<^item> \<open>lexical_cast\<close>: \<^verbatim>\<open>boost::lexical_cast<size_t>\<close>, \<open>None\<close> when it throws;
  \<^item> \<open>handler\<close>: the user's \<^verbatim>\<open>Handler::operator()(request, response)\<close>, which fills in
    the response;
  \<^item> \<open>stock_reply_bad_request\<close>: \<^verbatim>\<open>basic_response<Tag>::stock_reply(bad_request)\<close>.
\<close>

record 'p collaborators =
  parse_headers :: "'p \<Rightarrow> request \<Rightarrow> string \<Rightarrow> (tribool \<times> nat) \<times> 'p \<times> request"
  lexical_cast :: "string \<Rightarrow> size_t option"
  handler :: "request \<Rightarrow> response \<Rightarrow> response"
  stock_reply_bad_request :: response

section \<open>The callbacks of the connection\<close>

text \<open>\<^verbatim>\<open>boost::to_lower_copy\<close> in the classic locale: only A to Z change.\<close>

definition to_lower_char :: "char \<Rightarrow> char" where
  "to_lower_char ch =
     (case map_of (zip ''ABCDEFGHIJKLMNOPQRSTUVWXYZ'' ''abcdefghijklmnopqrstuvwxyz'') ch of
        Some lower \<Rightarrow> lower
      | None \<Rightarrow> ch)"

definition to_lower_copy :: "string \<Rightarrow> string" where
  "to_lower_copy s = map to_lower_char s"

definition is_content_length :: "request_header \<Rightarrow> bool" where
  "is_content_length header = (to_lower_copy (name header) = ''content-length'')"

text \<open>
  \<^verbatim>\<open>request_.method[0] == 'P'\<close>. On an empty string \<^verbatim>\<open>method[0]\<close> is the
  terminating NUL, which is not \<^verbatim>\<open>'P'\<close>.
\<close>

definition method_starts_with_P :: "request \<Rightarrow> bool" where
  "method_starts_with_P r = (case http_method r of [] \<Rightarrow> False | ch # _ \<Rightarrow> ch = CHR ''P'')"

text \<open>\<^verbatim>\<open>handler_(request_, response_)\<close>.\<close>

definition invoke_handler :: "'p collaborators \<Rightarrow> 'p connection \<Rightarrow> 'p connection" where
  "invoke_handler D c =
     c\<lparr>m_response := handler D (m_request c) (m_response c),
       effects := effects c @ [Handler_call (m_request c)]\<rparr>"

text \<open>
  \<^verbatim>\<open>boost::asio::async_write(socket_, response_.to_buffers(), wrap(handle_write))\<close>.
\<close>

definition async_write_response :: "'p connection \<Rightarrow> 'p connection" where
  "async_write_response c =
     c\<lparr>outstanding := Write, effects := effects c @ [Async_write (m_response c)]\<rparr>"

text \<open>
  \<^verbatim>\<open>response_ = stock_reply(bad_request)\<close> followed by the write; the three places of
  \<^verbatim>\<open>handle_read_headers\<close> that answer 400 are this same code.
\<close>

definition reply_bad_request :: "'p collaborators \<Rightarrow> 'p connection \<Rightarrow> 'p connection" where
  "reply_bad_request D c = async_write_response (c\<lparr>m_response := stock_reply_bad_request D\<rparr>)"

text \<open>\<^verbatim>\<open>handler_(request_, response_)\<close> followed by the write of the response.\<close>

definition dispatch :: "'p collaborators \<Rightarrow> 'p connection \<Rightarrow> 'p connection" where
  "dispatch D c = async_write_response (invoke_handler D c)"

text \<open>\<^verbatim>\<open>socket_.async_read_some(buffer(buffer_), wrap(handle_read_headers))\<close>.\<close>

definition async_read_some_headers :: "'p connection \<Rightarrow> 'p connection" where
  "async_read_some_headers c =
     c\<lparr>outstanding := Read_headers, effects := effects c @ [Async_read_some]\<rparr>"

text \<open>
  \<^verbatim>\<open>async_read(socket_, buffer(buffer_), transfer_at_least(content_length),
  wrap(bind(handle_read_body_contents, _, error, content_length, bytes_transferred)))\<close>.
\<close>

definition async_read_body :: "size_t \<Rightarrow> 'p connection \<Rightarrow> 'p connection" where
  "async_read_body content_length c =
     c\<lparr>outstanding := Read_body_contents content_length,
       effects := effects c @ [Async_read_at_least content_length]\<rparr>"

text \<open>
  \<^verbatim>\<open>socket_.async_read_some(buffer(buffer_),
  wrap(bind(handle_read_body_contents, _, error, difference, bytes_transferred)))\<close>.
\<close>

definition async_read_some_body :: "size_t \<Rightarrow> 'p connection \<Rightarrow> 'p connection" where
  "async_read_some_body difference c =
     c\<lparr>outstanding := Read_body_contents difference,
       effects := effects c @ [Async_read_some]\<rparr>"

text \<open>
  The branch of \<^verbatim>\<open>handle_read_headers\<close> for a method that starts with \<^verbatim>\<open>P\<close>:
  \<^verbatim>\<open>find_if\<close> for the first content-length header, \<^verbatim>\<open>lexical_cast\<close> of its value,
  and the test \<^verbatim>\<open>content_length != 0\<close>.
\<close>

definition resolve_content_length :: "'p collaborators \<Rightarrow> 'p connection \<Rightarrow> 'p connection" where
  "resolve_content_length D c =
     (case find is_content_length (headers (m_request c)) of
        None \<Rightarrow> reply_bad_request D c
      | Some it \<Rightarrow>
          (case lexical_cast D (val it) of
             None \<Rightarrow> reply_bad_request D c
           | Some content_length \<Rightarrow>
               if content_length \<noteq> 0 then async_read_body content_length c
               else dispatch D c))"

text \<open>
  \<^verbatim>\<open>handle_read_headers(ec, bytes_transferred)\<close>. The parser is given
  \<^verbatim>\<open>buffer_.data()\<close> up to \<^verbatim>\<open>buffer_.data() + bytes_transferred\<close>; the position it
  returns is ignored. On an error code nothing is done.
\<close>

definition handle_read_headers ::
  "'p collaborators \<Rightarrow> error_code option \<Rightarrow> nat \<Rightarrow> 'p connection \<Rightarrow> 'p connection" where
  "handle_read_headers D ec bytes_transferred c =
     (case ec of
        Some e \<Rightarrow> c
      | None \<Rightarrow>
          (case parse_headers D (m_parser c) (m_request c) (take bytes_transferred (m_buffer c)) of
             ((done, consumed), p, r) \<Rightarrow>
               (let c1 = c\<lparr>m_parser := p, m_request := r\<rparr> in
                case done of
                  True3 \<Rightarrow>
                    if method_starts_with_P r then resolve_content_length D c1
                    else dispatch D c1
                | False3 \<Rightarrow> reply_bad_request D c1
                | Indeterminate \<Rightarrow> async_read_some_headers c1)))"

text \<open>
  \<^verbatim>\<open>handle_read_body_contents(ec, bytes_to_read, bytes_transferred)\<close>. The difference
  is computed in \<^verbatim>\<open>size_t\<close>; the whole of \<^verbatim>\<open>buffer_\<close> (\<^verbatim>\<open>begin()\<close> to \<^verbatim>\<open>end()\<close>)
  is appended to the body.
\<close>

definition handle_read_body_contents ::
  "'p collaborators \<Rightarrow> error_code option \<Rightarrow> size_t \<Rightarrow> nat \<Rightarrow> 'p connection \<Rightarrow> 'p connection" where
  "handle_read_body_contents D ec bytes_to_read bytes_transferred c =
     (case ec of
        Some e \<Rightarrow> c
      | None \<Rightarrow>
          (let difference = bytes_to_read - (of_nat bytes_transferred :: size_t);
               c1 = c\<lparr>m_request := (m_request c)\<lparr>body := body (m_request c) @ m_buffer c\<rparr>\<rparr>
           in if difference = 0 then dispatch D c1
              else async_read_some_body difference c1))"

text \<open>
  \<^verbatim>\<open>handle_write(ec)\<close>: on success the socket is shut down in both directions.
  \<open>ignored_ec\<close> is the error code that \<^verbatim>\<open>socket_.shutdown\<close> stores in the local
  variable of that name; nothing reads it.
\<close>

definition handle_write ::
  "error_code option \<Rightarrow> error_code option \<Rightarrow> 'p connection \<Rightarrow> 'p connection" where
  "handle_write ec ignored_ec c =
     (case ec of
        Some e \<Rightarrow> c
      | None \<Rightarrow> c\<lparr>effects := effects c @ [Shutdown_both]\<rparr>)"

text \<open>
  \<^verbatim>\<open>start()\<close>: \<^verbatim>\<open>set_option(no_delay)\<close>, whose error is given to
  \<^verbatim>\<open>handler_.log\<close>, then the first read.
\<close>

definition start :: "error_code option \<Rightarrow> 'p connection \<Rightarrow> 'p connection" where
  "start option_error c =
     async_read_some_headers
       (case option_error of
          None \<Rightarrow> c
        | Some e \<Rightarrow> c\<lparr>effects := effects c @ [Handler_log e]\<rparr>)"

section \<open>Completions\<close>

text \<open>
  A completion of a socket operation: a read delivers an error code and the bytes it
  has put at the start of \<open>m_buffer\<close>; a write delivers an error code, and with it
  comes the error code that the shutdown of the socket gives if it is called.
\<close>

datatype completion =
    Read_done "error_code option" string
  | Write_done "error_code option" "error_code option"

text \<open>The socket stores the bytes received at the start of the buffer.\<close>

definition fill_buffer :: "string \<Rightarrow> string \<Rightarrow> string" where
  "fill_buffer buf bytes = take (length buf) bytes @ drop (length bytes) buf"

text \<open>
  One completion runs the callback bound to the outstanding operation; a completion
  that matches no outstanding operation does not occur and changes nothing.
\<close>

fun complete :: "'p collaborators \<Rightarrow> 'p connection \<Rightarrow> completion \<Rightarrow> 'p connection" where
  "complete D c (Read_done ec bytes) =
     (let received = take (length (m_buffer c)) bytes;
          c1 = c\<lparr>m_buffer := fill_buffer (m_buffer c) received\<rparr>
      in case outstanding c of
           Read_headers \<Rightarrow>
             handle_read_headers D ec (length received) (c1\<lparr>outstanding := No_operation\<rparr>)
         | Read_body_contents bytes_to_read \<Rightarrow>
             handle_read_body_contents D ec bytes_to_read (length received)
               (c1\<lparr>outstanding := No_operation\<rparr>)
         | Write \<Rightarrow> c
         | No_operation \<Rightarrow> c)"
| "complete D c (Write_done ec shutdown_ec) =
     (case outstanding c of
        Write \<Rightarrow> handle_write ec shutdown_ec (c\<lparr>outstanding := No_operation\<rparr>)
      | Read_headers \<Rightarrow> c
      | Read_body_contents bytes_to_read \<Rightarrow> c
      | No_operation \<Rightarrow> c)"

definition run :: "'p collaborators \<Rightarrow> 'p connection \<Rightarrow> completion list \<Rightarrow> 'p connection" where
  "run D c evs = foldl (complete D) c evs"

text \<open>The requests the handler has been called with.\<close>

fun handler_calls :: "effect list \<Rightarrow> request list" where
  "handler_calls [] = []"
| "handler_calls (Handler_call r # es) = r # handler_calls es"
| "handler_calls (e # es) = handler_calls es"

text \<open>The responses whose write has been started.\<close>

fun writes :: "effect list \<Rightarrow> response list" where
  "writes [] = []"
| "writes (Async_write r # es) = r # writes es"
| "writes (e # es) = writes es"

text \<open>A connection as the constructor leaves it, before \<open>start\<close>.\<close>

definition new_connection :: "string \<Rightarrow> 'p \<Rightarrow> request \<Rightarrow> response \<Rightarrow> 'p connection" where
  "new_connection garbage p0 r0 resp0 =
     \<lparr>m_buffer = take BOOST_HTTP_SERVER_BUFFER_SIZE
                  (garbage @ replicate BOOST_HTTP_SERVER_BUFFER_SIZE (CHR 0x00)),
      m_parser = p0, m_request = r0, m_response = resp0,
      outstanding = No_operation, effects = []\<rparr>"

section \<open>The request parser\<close>

text \<open>
  Modelled from the spec: \<^verbatim>\<open>request_parser\<close> (\<^verbatim>\<open>request_parser.hpp\<close>), whose
  \<^verbatim>\<open>parse_headers\<close> the connection calls. It consumes bytes one at a time: method,
  target, version, then header-name/header-value pairs, up to the empty line. The state
  carried from one call to the next is the logical position in the request; what has
  been read so far is in the request itself. It fails on a character that is not a token
  character in the method or in a header name, and on a missing version; it is
  incomplete when the bytes end before the empty line.
\<close>

datatype parser_state =
    Method_start
  | Method
  | Target_start
  | Target
  | Version_start
  | Version
  | Expecting_newline_1
  | Header_line_start
  | Header_name
  | Space_before_header_value
  | Header_value
  | Expecting_newline_2
  | Expecting_newline_3

definition is_ctl :: "char \<Rightarrow> bool" where
  "is_ctl ch = ((of_char ch :: nat) < 32 \<or> (of_char ch :: nat) = 127)"

definition is_tspecial :: "char \<Rightarrow> bool" where
  "is_tspecial ch = (ch \<in> set ''()<>@,;:\"/[]?={} '' \<or> ch = CHR 0x5C \<or> ch = CHR 0x09)"

definition is_token_char :: "char \<Rightarrow> bool" where
  "is_token_char ch = ((of_char ch :: nat) < 128 \<and> \<not> is_ctl ch \<and> \<not> is_tspecial ch)"

definition CR :: char where
  "CR = CHR 0x0D"

definition LF :: char where
  "LF = CHR 0x0A"

definition CRLF :: string where
  "CRLF = [CR, LF]"

text \<open>The header being read is the last of the sequence.\<close>

fun update_last :: "('a \<Rightarrow> 'a) \<Rightarrow> 'a list \<Rightarrow> 'a list" where
  "update_last f [] = []"
| "update_last f [h] = [f h]"
| "update_last f (h # hs) = h # update_last f hs"

definition push_header_name :: "char \<Rightarrow> request_header list \<Rightarrow> request_header list" where
  "push_header_name ch hs = update_last (\<lambda>h. h\<lparr>name := name h @ [ch]\<rparr>) hs"

definition push_header_value :: "char \<Rightarrow> request_header list \<Rightarrow> request_header list" where
  "push_header_value ch hs = update_last (\<lambda>h. h\<lparr>val := val h @ [ch]\<rparr>) hs"

text \<open>One byte: the outcome, the next position and the request.\<close>

fun consume :: "parser_state \<Rightarrow> request \<Rightarrow> char \<Rightarrow> tribool \<times> parser_state \<times> request" where
  "consume Method_start r ch =
     (if is_token_char ch then (Indeterminate, Method, r\<lparr>http_method := http_method r @ [ch]\<rparr>)
      else (False3, Method_start, r))"
| "consume Method r ch =
     (if ch = CHR '' '' then (Indeterminate, Target_start, r)
      else if is_token_char ch then (Indeterminate, Method, r\<lparr>http_method := http_method r @ [ch]\<rparr>)
      else (False3, Method, r))"
| "consume Target_start r ch =
     (if is_ctl ch \<or> ch = CHR '' '' then (False3, Target_start, r)
      else (Indeterminate, Target, r\<lparr>target := target r @ [ch]\<rparr>))"
| "consume Target r ch =
     (if ch = CHR '' '' then (Indeterminate, Version_start, r)
      else if is_ctl ch then (False3, Target, r)
      else (Indeterminate, Target, r\<lparr>target := target r @ [ch]\<rparr>))"
| "consume Version_start r ch =
     (if is_ctl ch \<or> ch = CHR '' '' then (False3, Version_start, r)
      else (Indeterminate, Version, r\<lparr>version := version r @ [ch]\<rparr>))"
| "consume Version r ch =
     (if ch = CR then (Indeterminate, Expecting_newline_1, r)
      else if is_ctl ch \<or> ch = CHR '' '' then (False3, Version, r)
      else (Indeterminate, Version, r\<lparr>version := version r @ [ch]\<rparr>))"
| "consume Expecting_newline_1 r ch =
     (if ch = LF then (Indeterminate, Header_line_start, r)
      else (False3, Expecting_newline_1, r))"
| "consume Header_line_start r ch =
     (if ch = CR then (Indeterminate, Expecting_newline_3, r)
      else if is_token_char ch
        then (Indeterminate, Header_name,
              r\<lparr>headers := headers r @ [\<lparr>name = [ch], val = []\<rparr>]\<rparr>)
      else (False3, Header_line_start, r))"
| "consume Header_name r ch =
     (if ch = CHR '':'' then (Indeterminate, Space_before_header_value, r)
      else if is_token_char ch
        then (Indeterminate, Header_name, r\<lparr>headers := push_header_name ch (headers r)\<rparr>)
      else (False3, Header_name, r))"
| "consume Space_before_header_value r ch =
     (if ch = CHR '' '' then (Indeterminate, Header_value, r)
      else (False3, Space_before_header_value, r))"
| "consume Header_value r ch =
     (if ch = CR then (Indeterminate, Expecting_newline_2, r)
      else if is_ctl ch then (False3, Header_value, r)
      else (Indeterminate, Header_value, r\<lparr>headers := push_header_value ch (headers r)\<rparr>))"
| "consume Expecting_newline_2 r ch =
     (if ch = LF then (Indeterminate, Header_line_start, r)
      else (False3, Expecting_newline_2, r))"
| "consume Expecting_newline_3 r ch =
     (if ch = LF then (True3, Expecting_newline_3, r)
      else (False3, Expecting_newline_3, r))"

text \<open>
  \<open>parse_from n\<close>: the bytes of one call, \<open>n\<close> of them consumed already. The call
  returns at the first byte that completes or fails the request, or at the end of the
  bytes, with the number of bytes consumed.
\<close>

fun parse_from ::
  "nat \<Rightarrow> parser_state \<Rightarrow> request \<Rightarrow> string \<Rightarrow> (tribool \<times> nat) \<times> parser_state \<times> request" where
  "parse_from n st r [] = ((Indeterminate, n), st, r)"
| "parse_from n st r (ch # rest) =
     (let (result, st', r') = consume st r ch
      in if result = Indeterminate then parse_from (Suc n) st' r' rest
         else ((result, Suc n), st', r'))"

definition request_parser_parse_headers ::
  "parser_state \<Rightarrow> request \<Rightarrow> string \<Rightarrow> (tribool \<times> nat) \<times> parser_state \<times> request" where
  "request_parser_parse_headers st r bytes = parse_from 0 st r bytes"

text \<open>
  Successive calls on the chunks of a stream, as the connection makes them: the next
  chunk is given to the parser only while the outcome is incomplete. \<open>n\<close> counts the
  bytes consumed by the calls before.
\<close>

fun parse_chunks ::
  "nat \<Rightarrow> parser_state \<Rightarrow> request \<Rightarrow> string list \<Rightarrow> (tribool \<times> nat) \<times> parser_state \<times> request" where
  "parse_chunks n st r [] = ((Indeterminate, n), st, r)"
| "parse_chunks n st r (chunk # chunks) =
     (let ((result, k), st', r') = request_parser_parse_headers st r chunk
      in if result = Indeterminate then parse_chunks (n + k) st' r' chunks
         else ((result, n + k), st', r'))"

definition empty_request :: request where
  "empty_request = \<lparr>http_method = [], target = [], version = [], headers = [], body = []\<rparr>"

definition empty_response :: response where
  "empty_response = \<lparr>status = 0, response_headers = [], content = []\<rparr>"

section \<open>Collaborators for concrete runs\<close>

text \<open>
  For the concrete runs below: \<^verbatim>\<open>lexical_cast<size_t>\<close> as Boost documents it for
  unsigned types (below); a handler that answers 200
  with the body it was given; and, for \<^verbatim>\<open>stock_reply(bad_request)\<close>, a reply with
  status 400.
\<close>

fun decimal_value :: "nat \<Rightarrow> string \<Rightarrow> nat option" where
  "decimal_value acc [] = Some acc"
| "decimal_value acc (ch # rest) =
     (if 48 \<le> (of_char ch :: nat) \<and> (of_char ch :: nat) \<le> 57
      then decimal_value (10 * acc + ((of_char ch :: nat) - 48)) rest
      else None)"

definition digits_to_size_t :: "string \<Rightarrow> size_t option" where
  "digits_to_size_t s =
     (if s = [] then None
      else (case decimal_value 0 s of
              None \<Rightarrow> None
            | Some n \<Rightarrow> if n < 2 ^ 64 then Some (of_nat n) else None))"

text \<open>
  \<^verbatim>\<open>boost::lexical_cast<size_t>\<close> is part of Boost, not of this repository. Its
  documented behaviour on unsigned types: the string is an optional sign followed by a
  non-empty string of decimal digits whose value fits; with a minus sign the result is
  the value negated in \<^verbatim>\<open>size_t\<close>, so \<^verbatim>\<open>-1\<close> gives \<open>2\<^sup>6\<^sup>4 - 1\<close> and does not
  throw. Anything else throws \<^verbatim>\<open>bad_lexical_cast\<close> (\<open>None\<close>).
\<close>

definition boost_lexical_cast_size_t :: "string \<Rightarrow> size_t option" where
  "boost_lexical_cast_size_t s =
     (case s of
        [] \<Rightarrow> None
      | ch # rest \<Rightarrow>
          if ch = CHR ''-'' then
            (case digits_to_size_t rest of None \<Rightarrow> None | Some n \<Rightarrow> Some (0 - n))
          else if ch = CHR ''+'' then digits_to_size_t rest
          else digits_to_size_t s)"

definition echo_handler :: "request \<Rightarrow> response \<Rightarrow> response" where
  "echo_handler r resp = resp\<lparr>status := 200, content := body r\<rparr>"

definition bad_request :: response where
  "bad_request = \<lparr>status = 400, response_headers = [], content = ''Bad Request''\<rparr>"

definition example_collaborators :: "parser_state collaborators" where
  "example_collaborators =
     \<lparr>parse_headers = request_parser_parse_headers,
      lexical_cast = boost_lexical_cast_size_t,
      handler = echo_handler,
      stock_reply_bad_request = bad_request\<rparr>"

text \<open>A new connection after \<open>start\<close>, with no error from \<^verbatim>\<open>set_option\<close>.\<close>

definition started :: "parser_state connection" where
  "started = start None (new_connection [] Method_start empty_request empty_response)"

text \<open>
  Request heads: a POST that declares five bytes of body, a POST without a
  content-length header, a POST whose content length is not a number, a POST whose
  content length is a negative number, a GET that
  carries a content-length header, and a request line with a character that no method
  may have.
\<close>

definition post_content_length_5 :: string where
  "post_content_length_5 =
     ''POST /x HTTP/1.1'' @ CRLF @ ''Host: y'' @ CRLF @ ''Content-Length: 5'' @ CRLF @ CRLF"

definition post_no_content_length :: string where
  "post_no_content_length = ''POST /x HTTP/1.1'' @ CRLF @ ''Host: y'' @ CRLF @ CRLF"

definition post_content_length_abc :: string where
  "post_content_length_abc =
     ''POST /x HTTP/1.1'' @ CRLF @ ''Host: y'' @ CRLF @ ''Content-Length: abc'' @ CRLF @ CRLF"

definition post_content_length_minus_1 :: string where
  "post_content_length_minus_1 =
     ''POST /x HTTP/1.1'' @ CRLF @ ''Host: y'' @ CRLF @ ''Content-Length: -1'' @ CRLF @ CRLF"

definition get_with_content_length :: string where
  "get_with_content_length = ''GET / HTTP/1.1'' @ CRLF @ ''Content-Length: 5'' @ CRLF @ CRLF"

definition malformed_request :: string where
  "malformed_request = ''G(T / HTTP/1.1'' @ CRLF @ CRLF"

section \<open>The client connection manager\<close>

text \<open>
  Modelled from the spec: an implementation of \<^verbatim>\<open>connection_manager\<close>.
  \<^verbatim>\<open>connection_manager.hpp\<close> declares \<^verbatim>\<open>get_connection\<close>,
  \<^verbatim>\<open>clear_resolved_cache\<close> and \<^verbatim>\<open>reset\<close> as pure virtual functions and holds no
  state; the state and the operations below are those of the specification: the idle
  connections with their destination (scheme, host, port), the cache of resolved
  addresses, the proxy target, and the connections that callers hold.
\<close>

type_synonym endpoint = "string \<times> string \<times> nat"

type_synonym address = nat

text \<open>
  A connection instance: the \<open>instance_id\<close> is the number of connections the manager
  had established before this one.
\<close>

record client_connection =
  instance_id :: nat
  destination :: endpoint

record client_options =
  cache_resolved :: bool
  use_proxy :: bool

text \<open>
  What the network answers during one call: the address of a host, whether a connection
  to an address can be established, whether an idle connection is still usable.
\<close>

record network =
  resolve :: "string \<Rightarrow> address option"
  establish :: "address \<Rightarrow> bool"
  usable :: "client_connection \<Rightarrow> bool"

datatype manager_error = Resolution_failed | Connection_failed

record manager =
  idle :: "client_connection list"
  resolved_cache :: "(string \<times> address) list"
  proxy :: "endpoint option"
  handed_out :: "client_connection list"
  established :: nat

definition new_manager :: "endpoint option \<Rightarrow> manager" where
  "new_manager px =
     \<lparr>idle = [], resolved_cache = [], proxy = px, handed_out = [], established = 0\<rparr>"

text \<open>The address of a host, from the cache or from the network.\<close>

definition resolve_target ::
  "network \<Rightarrow> manager \<Rightarrow> client_options \<Rightarrow> string \<Rightarrow> (address \<times> manager) option" where
  "resolve_target net m opts host =
     (if cache_resolved opts then
        (case map_of (resolved_cache m) host of
           Some a \<Rightarrow> Some (a, m)
         | None \<Rightarrow>
             (case resolve net host of
                None \<Rightarrow> None
              | Some a \<Rightarrow> Some (a, m\<lparr>resolved_cache := (host, a) # resolved_cache m\<rparr>)))
      else
        (case resolve net host of
           None \<Rightarrow> None
         | Some a \<Rightarrow> Some (a, m)))"

text \<open>
  \<^verbatim>\<open>get_connection\<close>: the target is resolved (the proxy in place of the request's
  destination when enabled); an idle connection to the target that is still usable is
  returned if there is one, else a new one is established. The connection returned
  leaves the idle set.
\<close>

definition get_connection ::
  "network \<Rightarrow> manager \<Rightarrow> endpoint \<Rightarrow> client_options \<Rightarrow>
   (manager_error + client_connection) \<times> manager" where
  "get_connection net m req opts =
     (let tgt = (if use_proxy opts then (case proxy m of Some px \<Rightarrow> px | None \<Rightarrow> req)
                 else req)
      in case resolve_target net m opts (fst (snd tgt)) of
           None \<Rightarrow> (Inl Resolution_failed, m)
         | Some (a, m1) \<Rightarrow>
             (case find (\<lambda>c. destination c = tgt \<and> usable net c) (idle m1) of
                Some c \<Rightarrow>
                  (Inr c, m1\<lparr>idle := removeAll c (idle m1),
                              handed_out := c # handed_out m1\<rparr>)
              | None \<Rightarrow>
                  if establish net a then
                    (let c = \<lparr>instance_id = established m1, destination = tgt\<rparr>
                     in (Inr c, m1\<lparr>established := Suc (established m1),
                                    handed_out := c # handed_out m1\<rparr>))
                  else (Inl Connection_failed, m1)))"

definition clear_resolved_cache :: "manager \<Rightarrow> manager" where
  "clear_resolved_cache m = m\<lparr>resolved_cache := []\<rparr>"

text \<open>\<^verbatim>\<open>reset\<close>: every pooled connection is discarded and the address cache is cleared.\<close>

definition reset :: "manager \<Rightarrow> manager" where
  "reset m = m\<lparr>idle := [], resolved_cache := []\<rparr>"

text \<open>
  A request on a connection that a caller holds ends: cleanly, and the connection goes
  back to the idle set if pooling is enabled; or by an I/O error, and it is evicted.
\<close>

definition clean_completion :: "bool \<Rightarrow> client_connection \<Rightarrow> manager \<Rightarrow> manager" where
  "clean_completion pooling c m =
     (if c \<in> set (handed_out m) then
        (if pooling then m\<lparr>handed_out := removeAll c (handed_out m), idle := idle m @ [c]\<rparr>
         else m\<lparr>handed_out := removeAll c (handed_out m)\<rparr>)
      else m)"

definition io_error :: "client_connection \<Rightarrow> manager \<Rightarrow> manager" where
  "io_error c m = m\<lparr>handed_out := removeAll c (handed_out m), idle := removeAll c (idle m)\<rparr>"

datatype manager_call =
    Get_connection network endpoint client_options
  | Clean_completion bool client_connection
  | Io_error client_connection
  | Clear_resolved_cache
  | Reset

text \<open>
  A sequence of calls; the result has the connections that the calls of
  \<^verbatim>\<open>get_connection\<close> returned, oldest first.
\<close>

fun manager_calls :: "manager \<Rightarrow> manager_call list \<Rightarrow> client_connection list \<times> manager" where
  "manager_calls m [] = ([], m)"
| "manager_calls m (Get_connection net req opts # calls) =
     (case get_connection net m req opts of
        (Inl err, m1) \<Rightarrow> manager_calls m1 calls
      | (Inr c, m1) \<Rightarrow> (case manager_calls m1 calls of (cs, m2) \<Rightarrow> (c # cs, m2)))"
| "manager_calls m (Clean_completion pooling c # calls) =
     manager_calls (clean_completion pooling c m) calls"
| "manager_calls m (Io_error c # calls) = manager_calls (io_error c m) calls"
| "manager_calls m (Clear_resolved_cache # calls) = manager_calls (clear_resolved_cache m) calls"
| "manager_calls m (Reset # calls) = manager_calls (reset m) calls"

text \<open>
  Two invariants of the manager. The idle connections and those handed out are
  different instances, all established by this manager. A list of connections is
  avoided when none of them is idle or handed out and all were established before.
\<close>

definition manager_invariant :: "manager \<Rightarrow> bool" where
  "manager_invariant m =
     (set (idle m) \<inter> set (handed_out m) = {} \<and>
      list_all (\<lambda>c. instance_id c < established m) (idle m @ handed_out m))"

definition avoids :: "client_connection list \<Rightarrow> manager \<Rightarrow> bool" where
  "avoids old m =
     (set old \<inter> set (idle m @ handed_out m) = {} \<and>
      list_all (\<lambda>c. instance_id c < established m) old)"

text \<open>
  For concrete runs of the manager: a network that resolves every host, on which every
  connection can be established and stays usable; a destination; options with the
  address cache on; and the first two instances to that destination.
\<close>

definition example_network :: network where
  "example_network =
     \<lparr>resolve = (\<lambda>host. Some 1), establish = (\<lambda>a. True), usable = (\<lambda>c. True)\<rparr>"

definition example_endpoint :: endpoint where
  "example_endpoint = (''http'', ''example.com'', 80)"

definition example_options :: client_options where
  "example_options = \<lparr>cache_resolved = True, use_proxy = False\<rparr>"

definition first_connection :: client_connection where
  "first_connection = \<lparr>instance_id = 0, destination = example_endpoint\<rparr>"

definition second_connection :: client_connection where
  "second_connection = \<lparr>instance_id = 1, destination = example_endpoint\<rparr>"

section \<open>Properties\<close>

subsection \<open>The parser resumes where it stopped\<close>

lemma parse_from_append:
  "parse_from n st r (xs @ ys) =
     (let ((result, k), st', r') = parse_from n st r xs
      in if result = Indeterminate then parse_from k st' r' ys
         else ((result, k), st', r'))"
  by (induction xs arbitrary: n st r) (auto split: prod.splits)

lemma parse_from_shift:
  "parse_from (n + m) st r xs =
     (let ((result, k), st', r') = parse_from m st r xs in ((result, n + k), st', r'))"
proof (induction xs arbitrary: m st r)
  case Nil
  show ?case by simp
next
  case (Cons ch rest)
  have "parse_from (Suc (n + m)) st' r' rest =
      (let ((result, k), st'', r'') = parse_from (Suc m) st' r' rest
       in ((result, n + k), st'', r''))"
    for st' r'
    using Cons [of "Suc m" st' r'] by simp
  then show ?case
    by (simp split: prod.splits)
qed

lemma parse_chunks_shift:
  "parse_chunks (n + m) st r chunks =
     (let ((result, k), st', r') = parse_chunks m st r chunks in ((result, n + k), st', r'))"
proof (induction chunks arbitrary: m st r)
  case Nil
  show ?case by simp
next
  case (Cons chunk chunks)
  have "parse_chunks (n + m + j) st' r' chunks =
      (let ((result, k), st'', r'') = parse_chunks (m + j) st' r' chunks
       in ((result, n + k), st'', r''))"
    for st' r' j
    using Cons [of "m + j" st' r'] by (simp add: add.assoc)
  then show ?case
    by (simp split: prod.splits)
qed

text \<open>
  C3. Feeding the parser the chunks of a byte stream one after the other, each call
  starting where the call before stopped, gives the same outcome, the same request
  (method, target, version, headers), the same parser position and the same number of
  bytes consumed as one call on the whole stream, wherever the stream is cut. A call
  receives only its own chunk, so no byte is looked at twice.
\<close>

theorem parser_resumable:
  "parse_chunks 0 st r chunks = request_parser_parse_headers st r (concat chunks)"
proof (induction chunks arbitrary: st r)
  case Nil
  show ?case by (simp add: request_parser_parse_headers_def)
next
  case (Cons chunk chunks)
  obtain result k st' r' where first: "parse_from 0 st r chunk = ((result, k), st', r')"
    by (metis prod.exhaust)
  show ?case
  proof (cases "result = Indeterminate")
    case True
    obtain result2 j st2 r2
      where rest: "parse_from 0 st' r' (concat chunks) = ((result2, j), st2, r2)"
      by (metis prod.exhaust)
    have "parse_chunks 0 st r (chunk # chunks) = parse_chunks k st' r' chunks"
      using first True by (simp add: request_parser_parse_headers_def)
    also have "\<dots> = ((result2, k + j), st2, r2)"
      using parse_chunks_shift [of k 0 st' r' chunks] Cons [of st' r'] rest
      by (simp add: request_parser_parse_headers_def)
    also have "\<dots> = parse_from k st' r' (concat chunks)"
      using parse_from_shift [of k 0 st' r' "concat chunks"] rest by simp
    also have "\<dots> = parse_from 0 st r (chunk @ concat chunks)"
      using first True by (simp add: parse_from_append)
    finally show ?thesis
      by (simp add: request_parser_parse_headers_def)
  next
    case False
    with first show ?thesis
      by (simp add: request_parser_parse_headers_def parse_from_append)
  qed
qed

subsection \<open>Completions of writes and failed reads\<close>

lemma handler_calls_append: "handler_calls (xs @ ys) = handler_calls xs @ handler_calls ys"
  by (induction xs rule: handler_calls.induct) simp_all

lemma writes_append: "writes (xs @ ys) = writes xs @ writes ys"
  by (induction xs rule: writes.induct) simp_all

lemma complete_No_operation: "outstanding c = No_operation \<Longrightarrow> complete D c ev = c"
  by (cases ev) (simp_all add: Let_def)

lemma run_No_operation: "outstanding c = No_operation \<Longrightarrow> run D c evs = c"
  by (induction evs) (simp_all add: run_def complete_No_operation)

lemma complete_Write:
  "outstanding c = Write \<Longrightarrow>
   complete D c (Write_done ec sd) =
     (case ec of None \<Rightarrow> c\<lparr>outstanding := No_operation, effects := effects c @ [Shutdown_both]\<rparr>
      | Some e \<Rightarrow> c\<lparr>outstanding := No_operation\<rparr>)"
  by (simp add: handle_write_def split: option.splits)

lemma complete_Write_Read: "outstanding c = Write \<Longrightarrow> complete D c (Read_done ec bytes) = c"
  by (simp add: Let_def)

lemma run_Write_calls:
  "outstanding c = Write \<Longrightarrow>
   handler_calls (effects (run D c evs)) = handler_calls (effects c) \<and>
   writes (effects (run D c evs)) = writes (effects c)"
proof (induction evs arbitrary: c)
  case Nil
  show ?case by (simp add: run_def)
next
  case (Cons ev evs)
  show ?case
  proof (cases ev)
    case (Read_done ec bytes)
    then have "complete D c ev = c" using Cons.prems by (simp add: Let_def)
    then show ?thesis using Cons by (simp add: run_def)
  next
    case (Write_done ec sd)
    then have "outstanding (complete D c ev) = No_operation"
      and "handler_calls (effects (complete D c ev)) = handler_calls (effects c)"
      and "writes (effects (complete D c ev)) = writes (effects c)"
      using Cons.prems by (simp_all add: handle_write_def handler_calls_append writes_append split: option.splits)
    then show ?thesis
      using run_No_operation [of "complete D c ev" D evs] by (simp add: run_def)
  qed
qed


text \<open>
  C7. The completion of the write of the response. On success the socket is shut down
  in both directions, whatever error the shutdown gives, and nothing is outstanding
  afterwards. On an error nothing is done: no shutdown, no new write, nothing
  outstanding. From then on no completion changes the connection.
\<close>

theorem handle_write_closes:
  "complete D (c\<lparr>outstanding := Write\<rparr>) (Write_done None shutdown_ec) =
     c\<lparr>outstanding := No_operation, effects := effects c @ [Shutdown_both]\<rparr> \<and>
   complete D (c\<lparr>outstanding := Write\<rparr>) (Write_done (Some e) shutdown_ec) =
     c\<lparr>outstanding := No_operation\<rparr> \<and>
   run D (complete D (c\<lparr>outstanding := Write\<rparr>) (Write_done ec shutdown_ec)) evs =
     complete D (c\<lparr>outstanding := Write\<rparr>) (Write_done ec shutdown_ec)"
proof -
  have "outstanding (complete D (c\<lparr>outstanding := Write\<rparr>) (Write_done ec shutdown_ec)) =
      No_operation"
    by (simp add: handle_write_def split: option.splits)
  then show ?thesis
    by (simp add: handle_write_def run_No_operation)
qed

text \<open>
  C8. A read that completes with an error code, of the headers or of the body: the
  connection does nothing more (nothing is outstanding, no new read is started), and
  its effects are those before the completion, so the logging hook of the handler is
  not called.
\<close>

theorem read_error_abandons_without_log:
  "effects (complete D (c\<lparr>outstanding := Read_headers\<rparr>) (Read_done (Some e) bytes)) =
     effects c \<and>
   outstanding (complete D (c\<lparr>outstanding := Read_headers\<rparr>) (Read_done (Some e) bytes)) =
     No_operation \<and>
   effects (complete D (c\<lparr>outstanding := Read_body_contents n\<rparr>) (Read_done (Some e) bytes)) =
     effects c \<and>
   outstanding (complete D (c\<lparr>outstanding := Read_body_contents n\<rparr>) (Read_done (Some e) bytes)) =
     No_operation"
  by (simp add: Let_def handle_read_headers_def handle_read_body_contents_def)

subsection \<open>The end of the request head\<close>

lemmas callback_defs = handle_read_headers_def handle_read_body_contents_def
  resolve_content_length_def reply_bad_request_def dispatch_def invoke_handler_def
  async_write_response_def async_read_some_headers_def async_read_body_def
  async_read_some_body_def

lemma take_fill_buffer:
  "length bytes \<le> length buf \<Longrightarrow> take (length bytes) (fill_buffer buf bytes) = bytes"
  by (simp add: fill_buffer_def)

lemma length_fill_buffer: "length (fill_buffer buf bytes) = length buf"
  by (simp add: fill_buffer_def)

lemma complete_Read_headers:
  "outstanding c = Read_headers \<Longrightarrow> length bytes \<le> length (m_buffer c) \<Longrightarrow>
   complete D c (Read_done ec bytes) =
     handle_read_headers D ec (length bytes)
       (c\<lparr>m_buffer := fill_buffer (m_buffer c) bytes, outstanding := No_operation\<rparr>)"
  by (simp add: Let_def)

lemma complete_Read_body_contents:
  "outstanding c = Read_body_contents n \<Longrightarrow> length bytes \<le> length (m_buffer c) \<Longrightarrow>
   complete D c (Read_done ec bytes) =
     handle_read_body_contents D ec n (length bytes)
       (c\<lparr>m_buffer := fill_buffer (m_buffer c) bytes, outstanding := No_operation\<rparr>)"
  by (simp add: Let_def)

lemma length_buffer_complete: "length (m_buffer (complete D c ev)) = length (m_buffer c)"
  by (cases ev; cases "outstanding c")
    (auto simp: Let_def callback_defs handle_write_def length_fill_buffer
      split: option.splits prod.splits tribool.splits)

lemma quiet_complete:
  assumes "outstanding c = Write \<or> outstanding c = No_operation \<or>
           handler_calls (effects c) = [] \<and> writes (effects c) = []"
  shows "outstanding (complete D c ev) = Write \<or> outstanding (complete D c ev) = No_operation \<or>
         handler_calls (effects (complete D c ev)) = [] \<and> writes (effects (complete D c ev)) = []"
  using assms
  by (cases ev; cases "outstanding c")
    (auto simp: Let_def callback_defs handle_write_def handler_calls_append writes_append
      split: option.splits prod.splits tribool.splits)

declare complete.simps [simp del]

lemma complete_Write_done:
  "outstanding c = Write \<Longrightarrow>
   complete D c (Write_done ec shutdown_ec) =
     handle_write ec shutdown_ec (c\<lparr>outstanding := No_operation\<rparr>)"
  by (simp add: complete.simps)

lemma run_snoc: "run D c (evs @ [ev]) = complete D (run D c evs) ev"
  by (simp add: run_def)

lemma run_Cons: "run D c (ev # evs) = run D (complete D c ev) evs"
  by (simp add: run_def)

lemma reachable_reading:
  "length (m_buffer (run D (start option_error (new_connection garbage p0 r0 resp0)) evs)) =
     BOOST_HTTP_SERVER_BUFFER_SIZE \<and>
   (outstanding (run D (start option_error (new_connection garbage p0 r0 resp0)) evs) = Write \<or>
    outstanding (run D (start option_error (new_connection garbage p0 r0 resp0)) evs) = No_operation \<or>
    handler_calls (effects (run D (start option_error (new_connection garbage p0 r0 resp0)) evs)) = [] \<and>
    writes (effects (run D (start option_error (new_connection garbage p0 r0 resp0)) evs)) = [])"
proof (induction evs rule: rev_induct)
  case Nil
  show ?case
    by (auto simp: run_def start_def new_connection_def async_read_some_headers_def
        split: option.splits)
next
  case (snoc ev evs)
  then show ?case
    using quiet_complete [of "run D (start option_error (new_connection garbage p0 r0 resp0)) evs" D ev]
    by (simp add: run_snoc length_buffer_complete)
qed

lemma reading_headers_quiet:
  assumes "c = run D (start option_error (new_connection garbage p0 r0 resp0)) evs"
    and "outstanding c = Read_headers"
  shows "length (m_buffer c) = BOOST_HTTP_SERVER_BUFFER_SIZE"
    and "handler_calls (effects c) = []" and "writes (effects c) = []"
  using assms reachable_reading [of D option_error garbage p0 r0 resp0 evs] by auto

lemma reply_bad_request_run:
  "handler_calls (effects (run D (reply_bad_request D c) later)) = handler_calls (effects c) \<and>
   writes (effects (run D (reply_bad_request D c) later)) =
     writes (effects c) @ [stock_reply_bad_request D]"
  using run_Write_calls [of "reply_bad_request D c" D later]
  by (simp add: reply_bad_request_def async_write_response_def handler_calls_append writes_append)

text \<open>
  C5. A connection that has been started and is reading the request head receives
  bytes on which the parser fails. Then the stock 400 reply is the one response whose
  write is started, whatever completions follow; the handler is not called, before or
  after; when the write succeeds the socket is shut down; and after the completion of
  the write, successful or not, nothing is outstanding.
\<close>

theorem malformed_request_gets_400:
  assumes reach: "c = run D (start option_error (new_connection garbage p0 r0 resp0)) evs"
    and out: "outstanding c = Read_headers"
    and len: "length bytes \<le> BOOST_HTTP_SERVER_BUFFER_SIZE"
    and failed: "fst (fst (parse_headers D (m_parser c) (m_request c) bytes)) = False3"
  shows "writes (effects (run D c (Read_done None bytes # later))) = [stock_reply_bad_request D] \<and>
         handler_calls (effects (run D c (Read_done None bytes # later))) = [] \<and>
         effects (run D c [Read_done None bytes, Write_done None shutdown_ec]) =
           effects c @ [Async_write (stock_reply_bad_request D), Shutdown_both] \<and>
         outstanding (run D c [Read_done None bytes, Write_done ec shutdown_ec]) = No_operation"
proof -
  note quiet = reading_headers_quiet [OF reach out]
  obtain k p r where parsed: "parse_headers D (m_parser c) (m_request c) bytes = ((False3, k), p, r)"
    using failed by (metis prod.collapse)
  define c1 where "c1 = c\<lparr>m_buffer := fill_buffer (m_buffer c) bytes, outstanding := No_operation,
    m_parser := p, m_request := r\<rparr>"
  have step: "complete D c (Read_done None bytes) = reply_bad_request D c1"
    using out len quiet(1) parsed
    by (simp add: complete_Read_headers handle_read_headers_def take_fill_buffer c1_def)
  have c1: "effects c1 = effects c" by (simp add: c1_def)
  have "writes (effects (run D c (Read_done None bytes # later))) = [stock_reply_bad_request D]"
    and "handler_calls (effects (run D c (Read_done None bytes # later))) = []"
    using reply_bad_request_run [of D c1 later] quiet c1 by (simp_all add: run_Cons step)
  moreover have "effects (run D c [Read_done None bytes, Write_done None shutdown_ec]) =
      effects c @ [Async_write (stock_reply_bad_request D), Shutdown_both]"
    by (simp add: run_def step c1 reply_bad_request_def async_write_response_def handle_write_def
        complete_Write_done)
  moreover have "outstanding (run D c [Read_done None bytes, Write_done ec shutdown_ec]) = No_operation"
    by (simp add: run_def step reply_bad_request_def async_write_response_def handle_write_def
        complete_Write_done split: option.splits)
  ultimately show ?thesis by simp
qed


lemma headers_complete_step:
  assumes out: "outstanding c = Read_headers" and len: "length bytes \<le> length (m_buffer c)"
    and parsed: "parse_headers D (m_parser c) (m_request c) bytes = ((True3, k), p, r)"
  shows "complete D c (Read_done None bytes) =
     (if method_starts_with_P r
      then resolve_content_length D
             (c\<lparr>m_buffer := fill_buffer (m_buffer c) bytes, outstanding := No_operation,
                m_parser := p, m_request := r\<rparr>)
      else dispatch D
             (c\<lparr>m_buffer := fill_buffer (m_buffer c) bytes, outstanding := No_operation,
                m_parser := p, m_request := r\<rparr>))"
  using assms by (simp add: complete_Read_headers handle_read_headers_def take_fill_buffer)

text \<open>
  The two ways to the 400 reply for a method that starts with \<^verbatim>\<open>P\<close>. A connection
  that has been started and is reading the request head receives the end of the head.
  If the request has no content-length header, or \<^verbatim>\<open>lexical_cast<size_t>\<close> throws on
  the value of the first one, then the stock 400 reply is the one response whose write
  is started and the handler is not called, before or after, whatever completions
  follow.
\<close>

lemma absent_or_throwing_content_length_gets_400:
  assumes reach: "c = run D (start option_error (new_connection garbage p0 r0 resp0)) evs"
    and out: "outstanding c = Read_headers"
    and len: "length bytes \<le> BOOST_HTTP_SERVER_BUFFER_SIZE"
    and parsed: "parse_headers D (m_parser c) (m_request c) bytes = ((True3, k), p, r)"
    and P: "method_starts_with_P r"
    and bad: "find is_content_length (headers r) = None \<or>
              (\<exists>h. find is_content_length (headers r) = Some h \<and> lexical_cast D (val h) = None)"
  shows "writes (effects (run D c (Read_done None bytes # later))) = [stock_reply_bad_request D] \<and>
         handler_calls (effects (run D c (Read_done None bytes # later))) = []"
proof -
  note quiet = reading_headers_quiet [OF reach out]
  define c1 where "c1 = c\<lparr>m_buffer := fill_buffer (m_buffer c) bytes, outstanding := No_operation,
    m_parser := p, m_request := r\<rparr>"
  have "resolve_content_length D c1 = reply_bad_request D c1"
    using bad by (auto simp: resolve_content_length_def c1_def)
  then have step: "complete D c (Read_done None bytes) = reply_bad_request D c1"
    using headers_complete_step [OF out _ parsed] len quiet(1) P by (simp add: c1_def)
  have "effects c1 = effects c" by (simp add: c1_def)
  then show ?thesis
    using reply_bad_request_run [of D c1 later] quiet by (simp add: run_Cons step)
qed

text \<open>
  C10. What the connection does when the parser reports the head complete. If the
  first character of the method is not \<^verbatim>\<open>P\<close>, the handler is called at once
  with the request and the write of its response is started: the headers are not
  looked at and no read is started. If it is \<^verbatim>\<open>P\<close>, the content length is
  resolved: 400 without the header or with a value that does not parse, a read of the
  body for a value other than zero, the handler at once for zero.
\<close>

theorem content_length_only_for_P_methods:
  assumes out: "outstanding c = Read_headers" and len: "length bytes \<le> length (m_buffer c)"
    and parsed: "parse_headers D (m_parser c) (m_request c) bytes = ((True3, k), p, r)"
  shows "effects (complete D c (Read_done None bytes)) =
           effects c @
           (if method_starts_with_P r then
              (case find is_content_length (headers r) of
                 None \<Rightarrow> [Async_write (stock_reply_bad_request D)]
               | Some h \<Rightarrow>
                   (case lexical_cast D (val h) of
                      None \<Rightarrow> [Async_write (stock_reply_bad_request D)]
                    | Some n \<Rightarrow>
                        if n \<noteq> 0 then [Async_read_at_least n]
                        else [Handler_call r, Async_write (handler D r (m_response c))]))
            else [Handler_call r, Async_write (handler D r (m_response c))]) \<and>
         outstanding (complete D c (Read_done None bytes)) =
           (if method_starts_with_P r then
              (case find is_content_length (headers r) of
                 None \<Rightarrow> Write
               | Some h \<Rightarrow>
                   (case lexical_cast D (val h) of
                      None \<Rightarrow> Write
                    | Some n \<Rightarrow> if n \<noteq> 0 then Read_body_contents n else Write))
            else Write)"
  by (simp add: headers_complete_step [OF out len parsed] resolve_content_length_def
      reply_bad_request_def dispatch_def invoke_handler_def async_write_response_def
      async_read_body_def split: option.splits)

lemma body_read_step:
  assumes out: "outstanding c = Read_body_contents n" and len: "length bytes \<le> length (m_buffer c)"
  shows "complete D c (Read_done None bytes) =
     (if n - of_nat (length bytes) = 0
      then dispatch D
             (c\<lparr>m_buffer := fill_buffer (m_buffer c) bytes, outstanding := No_operation,
                m_request := (m_request c)
                  \<lparr>body := body (m_request c) @ fill_buffer (m_buffer c) bytes\<rparr>\<rparr>)
      else async_read_some_body (n - of_nat (length bytes))
             (c\<lparr>m_buffer := fill_buffer (m_buffer c) bytes, outstanding := No_operation,
                m_request := (m_request c)
                  \<lparr>body := body (m_request c) @ fill_buffer (m_buffer c) bytes\<rparr>\<rparr>))"
  using assms by (simp add: complete_Read_body_contents handle_read_body_contents_def Let_def)


subsection \<open>Concrete runs\<close>

lemmas parser_eval = request_parser_parse_headers_def is_token_char_def is_ctl_def
  is_tspecial_def empty_request_def CRLF_def CR_def LF_def push_header_name_def
  push_header_value_def

lemma started_fields:
  "m_parser started = Method_start" "m_request started = empty_request"
  "m_response started = empty_response" "outstanding started = Read_headers"
  "effects started = [Async_read_some]"
  "length (m_buffer started) = BOOST_HTTP_SERVER_BUFFER_SIZE"
  by (simp_all add: started_def start_def new_connection_def async_read_some_headers_def)

lemma started_reachable:
  "started =
     run example_collaborators
       (start None (new_connection [] Method_start empty_request empty_response)) []"
  by (simp add: started_def run_def)

lemma example_fields:
  "parse_headers example_collaborators = request_parser_parse_headers"
  "lexical_cast example_collaborators = boost_lexical_cast_size_t"
  "handler example_collaborators = echo_handler"
  "stock_reply_bad_request example_collaborators = bad_request"
  by (simp_all add: example_collaborators_def)

lemma parse_malformed_request:
  "fst (fst (request_parser_parse_headers Method_start empty_request malformed_request)) = False3"
  by (simp add: malformed_request_def parser_eval)

theorem malformed_request_gets_400_witness:
  "started =
     run example_collaborators
       (start None (new_connection [] Method_start empty_request empty_response)) [] \<and>
   outstanding started = Read_headers \<and>
   length malformed_request \<le> BOOST_HTTP_SERVER_BUFFER_SIZE \<and>
   fst (fst (parse_headers example_collaborators (m_parser started) (m_request started)
     malformed_request)) = False3 \<and>
   writes (effects (run example_collaborators started
     (Read_done None malformed_request # [Write_done None None]))) = [bad_request] \<and>
   handler_calls (effects (run example_collaborators started
     (Read_done None malformed_request # [Write_done None None]))) = [] \<and>
   effects (run example_collaborators started
     [Read_done None malformed_request, Write_done None None]) =
     [Async_read_some, Async_write bad_request, Shutdown_both] \<and>
   outstanding (run example_collaborators started
     [Read_done None malformed_request, Write_done None None]) = No_operation"
proof -
  have len: "length malformed_request \<le> BOOST_HTTP_SERVER_BUFFER_SIZE"
    by (simp add: malformed_request_def CRLF_def BOOST_HTTP_SERVER_BUFFER_SIZE_def)
  have failed: "fst (fst (parse_headers example_collaborators (m_parser started)
      (m_request started) malformed_request)) = False3"
    by (simp add: example_fields started_fields parse_malformed_request)
  show ?thesis
    using malformed_request_gets_400 [OF started_reachable started_fields(4) len failed,
        of "[Write_done None None]" None None]
      started_reachable len failed
    by (simp add: started_fields example_fields)
qed

text \<open>
  The connection gives the parser the bytes of each header read, in order, as long as
  the parser asks for more: with the parser above as \<open>parse_headers\<close>, after the reads
  of the chunks the parser position and the request of the connection are those of
  \<open>parse_chunks\<close>, and the next header read is outstanding.
\<close>

lemma header_reads_feed_parser:
  assumes D: "parse_headers D = request_parser_parse_headers"
  shows "outstanding c = Read_headers \<Longrightarrow>
    list_all (\<lambda>chunk. length chunk \<le> length (m_buffer c)) chunks \<Longrightarrow>
    parse_chunks n (m_parser c) (m_request c) chunks = ((Indeterminate, k), st, r) \<Longrightarrow>
    outstanding (run D c (map (Read_done None) chunks)) = Read_headers \<and>
    m_parser (run D c (map (Read_done None) chunks)) = st \<and>
    m_request (run D c (map (Read_done None) chunks)) = r"
proof (induction chunks arbitrary: c n)
  case Nil
  then show ?case by (simp add: run_def)
next
  case (Cons chunk chunks)
  obtain res j st' r' where first:
    "request_parser_parse_headers (m_parser c) (m_request c) chunk = ((res, j), st', r')"
    by (metis prod.exhaust)
  have ind: "res = Indeterminate"
    using Cons.prems(3) first by (auto split: if_splits)
  define c1 where "c1 = complete D c (Read_done None chunk)"
  have len: "length chunk \<le> length (m_buffer c)"
    using Cons.prems(2) by simp
  have c1: "outstanding c1 = Read_headers" "m_parser c1 = st'" "m_request c1 = r'"
    "length (m_buffer c1) = length (m_buffer c)"
    using first ind Cons.prems(1) len
    by (simp_all add: c1_def complete_Read_headers handle_read_headers_def take_fill_buffer D
        async_read_some_headers_def length_fill_buffer)
  have "parse_chunks (n + j) (m_parser c1) (m_request c1) chunks = ((Indeterminate, k), st, r)"
    using Cons.prems(3) first ind by (simp add: c1)
  moreover have "list_all (\<lambda>chunk. length chunk \<le> length (m_buffer c1)) chunks"
    using Cons.prems(2) by (simp add: c1)
  ultimately show ?case
    using Cons.IH [OF c1(1)] by (simp add: run_Cons c1_def)
qed

text \<open>
  Each body read that completes without error makes the body longer by the size of the
  buffer, whatever number of bytes the read has transferred.
\<close>

lemma body_grows_by_buffer:
  "outstanding c = Read_body_contents n \<Longrightarrow>
   length (body (m_request (complete D c (Read_done None bytes)))) =
     length (body (m_request c)) + length (m_buffer c)"
  by (simp add: complete.simps Let_def handle_read_body_contents_def dispatch_def
      invoke_handler_def async_write_response_def async_read_some_body_def length_fill_buffer)

lemmas header_eval = is_content_length_def to_lower_copy_def to_lower_char_def
  method_starts_with_P_def

lemma parse_post_no_content_length:
  "request_parser_parse_headers Method_start empty_request post_no_content_length =
     ((True3, 29), Expecting_newline_3,
      \<lparr>http_method = ''POST'', target = ''/x'', version = ''HTTP/1.1'',
       headers = [\<lparr>name = ''Host'', val = ''y''\<rparr>], body = []\<rparr>)"
  by (simp add: post_no_content_length_def parser_eval)

lemma parse_post_content_length_abc:
  "request_parser_parse_headers Method_start empty_request post_content_length_abc =
     ((True3, 50), Expecting_newline_3,
      \<lparr>http_method = ''POST'', target = ''/x'', version = ''HTTP/1.1'',
       headers = [\<lparr>name = ''Host'', val = ''y''\<rparr>,
                  \<lparr>name = ''Content-Length'', val = ''abc''\<rparr>], body = []\<rparr>)"
  by (simp add: post_content_length_abc_def parser_eval)

lemma parse_post_content_length_5:
  "request_parser_parse_headers Method_start empty_request post_content_length_5 =
     ((True3, 48), Expecting_newline_3,
      \<lparr>http_method = ''POST'', target = ''/x'', version = ''HTTP/1.1'',
       headers = [\<lparr>name = ''Host'', val = ''y''\<rparr>,
                  \<lparr>name = ''Content-Length'', val = ''5''\<rparr>], body = []\<rparr>)"
  by (simp add: post_content_length_5_def parser_eval)

lemma parse_get_with_content_length:
  "request_parser_parse_headers Method_start empty_request get_with_content_length =
     ((True3, 37), Expecting_newline_3,
      \<lparr>http_method = ''GET'', target = ''/'', version = ''HTTP/1.1'',
       headers = [\<lparr>name = ''Content-Length'', val = ''5''\<rparr>], body = []\<rparr>)"
  by (simp add: get_with_content_length_def parser_eval)

lemma digits_abc: "boost_lexical_cast_size_t ''abc'' = None"
  by (simp add: boost_lexical_cast_size_t_def digits_to_size_t_def)

lemma digits_5: "boost_lexical_cast_size_t ''5'' = Some 5"
  by (simp add: boost_lexical_cast_size_t_def digits_to_size_t_def)

lemma digits_minus_1: "boost_lexical_cast_size_t ''-1'' = Some 18446744073709551615"
  by (simp add: boost_lexical_cast_size_t_def digits_to_size_t_def)

lemma scenario_lengths:
  "length post_no_content_length \<le> BOOST_HTTP_SERVER_BUFFER_SIZE"
  "length post_content_length_abc \<le> BOOST_HTTP_SERVER_BUFFER_SIZE"
  "length post_content_length_5 \<le> BOOST_HTTP_SERVER_BUFFER_SIZE"
  "length get_with_content_length \<le> BOOST_HTTP_SERVER_BUFFER_SIZE"
  by (simp_all add: post_no_content_length_def post_content_length_abc_def
      post_content_length_5_def get_with_content_length_def CRLF_def
      BOOST_HTTP_SERVER_BUFFER_SIZE_def)

theorem absent_or_throwing_content_length_example:
  "(started =
      run example_collaborators
        (start None (new_connection [] Method_start empty_request empty_response)) [] \<and>
    outstanding started = Read_headers \<and>
    length post_no_content_length \<le> BOOST_HTTP_SERVER_BUFFER_SIZE \<and>
    parse_headers example_collaborators (m_parser started) (m_request started)
      post_no_content_length =
      ((True3, 29), Expecting_newline_3,
       \<lparr>http_method = ''POST'', target = ''/x'', version = ''HTTP/1.1'',
        headers = [\<lparr>name = ''Host'', val = ''y''\<rparr>], body = []\<rparr>) \<and>
    writes (effects (run example_collaborators started
      [Read_done None post_no_content_length, Write_done None None])) = [bad_request] \<and>
    handler_calls (effects (run example_collaborators started
      [Read_done None post_no_content_length, Write_done None None])) = []) \<and>
   (length post_content_length_abc \<le> BOOST_HTTP_SERVER_BUFFER_SIZE \<and>
    parse_headers example_collaborators (m_parser started) (m_request started)
      post_content_length_abc =
      ((True3, 50), Expecting_newline_3,
       \<lparr>http_method = ''POST'', target = ''/x'', version = ''HTTP/1.1'',
        headers = [\<lparr>name = ''Host'', val = ''y''\<rparr>,
                   \<lparr>name = ''Content-Length'', val = ''abc''\<rparr>], body = []\<rparr>) \<and>
    lexical_cast example_collaborators ''abc'' = None \<and>
    writes (effects (run example_collaborators started
      [Read_done None post_content_length_abc, Write_done None None])) = [bad_request] \<and>
    handler_calls (effects (run example_collaborators started
      [Read_done None post_content_length_abc, Write_done None None])) = [])"
proof -
  have absent: "parse_headers example_collaborators (m_parser started) (m_request started)
      post_no_content_length =
      ((True3, 29), Expecting_newline_3,
       \<lparr>http_method = ''POST'', target = ''/x'', version = ''HTTP/1.1'',
        headers = [\<lparr>name = ''Host'', val = ''y''\<rparr>], body = []\<rparr>)"
    by (simp add: example_fields started_fields parse_post_no_content_length)
  have invalid: "parse_headers example_collaborators (m_parser started) (m_request started)
      post_content_length_abc =
      ((True3, 50), Expecting_newline_3,
       \<lparr>http_method = ''POST'', target = ''/x'', version = ''HTTP/1.1'',
        headers = [\<lparr>name = ''Host'', val = ''y''\<rparr>,
                   \<lparr>name = ''Content-Length'', val = ''abc''\<rparr>], body = []\<rparr>)"
    by (simp add: example_fields started_fields parse_post_content_length_abc)
  have refused: "lexical_cast example_collaborators ''abc'' = None"
    by (simp add: example_fields digits_abc)
  have first: "writes (effects (run example_collaborators started
      (Read_done None post_no_content_length # [Write_done None None]))) =
        [stock_reply_bad_request example_collaborators] \<and>
    handler_calls (effects (run example_collaborators started
      (Read_done None post_no_content_length # [Write_done None None]))) = []"
    by (rule absent_or_throwing_content_length_gets_400
        [OF started_reachable started_fields(4) scenario_lengths(1) absent])
      (simp_all add: header_eval)
  have second: "writes (effects (run example_collaborators started
      (Read_done None post_content_length_abc # [Write_done None None]))) =
        [stock_reply_bad_request example_collaborators] \<and>
    handler_calls (effects (run example_collaborators started
      (Read_done None post_content_length_abc # [Write_done None None]))) = []"
    by (rule absent_or_throwing_content_length_gets_400
        [OF started_reachable started_fields(4) scenario_lengths(2) invalid])
      (simp_all add: header_eval refused)
  show ?thesis
    using first second absent invalid refused started_reachable started_fields(4)
      scenario_lengths(1,2)
    by (simp add: example_fields)
qed


theorem content_length_only_for_P_methods_witness:
  "outstanding started = Read_headers \<and>
   length get_with_content_length \<le> length (m_buffer started) \<and>
   parse_headers example_collaborators (m_parser started) (m_request started)
     get_with_content_length =
     ((True3, 37), Expecting_newline_3,
      \<lparr>http_method = ''GET'', target = ''/'', version = ''HTTP/1.1'',
       headers = [\<lparr>name = ''Content-Length'', val = ''5''\<rparr>], body = []\<rparr>) \<and>
   effects (complete example_collaborators started (Read_done None get_with_content_length)) =
     [Async_read_some,
      Handler_call
        \<lparr>http_method = ''GET'', target = ''/'', version = ''HTTP/1.1'',
         headers = [\<lparr>name = ''Content-Length'', val = ''5''\<rparr>], body = []\<rparr>,
      Async_write \<lparr>status = 200, response_headers = [], content = []\<rparr>] \<and>
   outstanding (complete example_collaborators started
     (Read_done None get_with_content_length)) = Write"
proof -
  have len: "length get_with_content_length \<le> length (m_buffer started)"
    by (simp add: started_fields scenario_lengths)
  have parsed: "parse_headers example_collaborators (m_parser started) (m_request started)
      get_with_content_length =
      ((True3, 37), Expecting_newline_3,
       \<lparr>http_method = ''GET'', target = ''/'', version = ''HTTP/1.1'',
        headers = [\<lparr>name = ''Content-Length'', val = ''5''\<rparr>], body = []\<rparr>)"
    by (simp add: example_fields started_fields parse_get_with_content_length)
  show ?thesis
    using content_length_only_for_P_methods [OF started_fields(4) len parsed] len parsed
    by (simp add: started_fields example_fields method_starts_with_P_def echo_handler_def
        empty_response_def)
qed

lemma after_post_content_length_5:
  "complete example_collaborators started (Read_done None post_content_length_5) =
     started
       \<lparr>m_buffer := fill_buffer (m_buffer started) post_content_length_5,
        m_parser := Expecting_newline_3,
        m_request :=
          \<lparr>http_method = ''POST'', target = ''/x'', version = ''HTTP/1.1'',
           headers = [\<lparr>name = ''Host'', val = ''y''\<rparr>,
                      \<lparr>name = ''Content-Length'', val = ''5''\<rparr>], body = []\<rparr>,
        outstanding := Read_body_contents 5,
        effects := [Async_read_some, Async_read_at_least 5]\<rparr>"
proof -
  have len: "length post_content_length_5 \<le> length (m_buffer started)"
    by (simp add: started_fields scenario_lengths)
  have parsed: "parse_headers example_collaborators (m_parser started) (m_request started)
      post_content_length_5 =
      ((True3, 48), Expecting_newline_3,
       \<lparr>http_method = ''POST'', target = ''/x'', version = ''HTTP/1.1'',
        headers = [\<lparr>name = ''Host'', val = ''y''\<rparr>,
                   \<lparr>name = ''Content-Length'', val = ''5''\<rparr>], body = []\<rparr>)"
    by (simp add: example_fields started_fields parse_post_content_length_5)
  show ?thesis
    by (simp add: headers_complete_step [OF started_fields(4) len parsed]
        resolve_content_length_def header_eval example_fields digits_5 async_read_body_def
        started_fields)
qed

lemma parse_post_content_length_minus_1:
  "request_parser_parse_headers Method_start empty_request post_content_length_minus_1 =
     ((True3, 49), Expecting_newline_3,
      \<lparr>http_method = ''POST'', target = ''/x'', version = ''HTTP/1.1'',
       headers = [\<lparr>name = ''Host'', val = ''y''\<rparr>,
                  \<lparr>name = ''Content-Length'', val = ''-1''\<rparr>], body = []\<rparr>)"
  by (simp add: post_content_length_minus_1_def parser_eval)

text \<open>
  C4. The run of a POST whose content-length header has the value \<^verbatim>\<open>-1\<close>, which is
  not a non-negative integer. \<^verbatim>\<open>lexical_cast<size_t>\<close> does not throw on it and gives
  \<open>2\<^sup>6\<^sup>4 - 1\<close>, so the \<^verbatim>\<open>catch\<close> that answers 400 is not entered: no response is
  written, and the connection starts a read of that many bytes of body. The handler is
  not called.
\<close>

theorem negative_content_length_gets_no_400:
  "lexical_cast example_collaborators ''-1'' = Some 18446744073709551615 \<and>
   writes (effects (run example_collaborators started
     [Read_done None post_content_length_minus_1])) = [] \<and>
   handler_calls (effects (run example_collaborators started
     [Read_done None post_content_length_minus_1])) = [] \<and>
   effects (run example_collaborators started
     [Read_done None post_content_length_minus_1]) =
     [Async_read_some, Async_read_at_least 18446744073709551615] \<and>
   outstanding (run example_collaborators started
     [Read_done None post_content_length_minus_1]) =
     Read_body_contents 18446744073709551615"
proof -
  have len: "length post_content_length_minus_1 \<le> length (m_buffer started)"
    by (simp add: started_fields post_content_length_minus_1_def CRLF_def
        BOOST_HTTP_SERVER_BUFFER_SIZE_def)
  have parsed: "parse_headers example_collaborators (m_parser started) (m_request started)
      post_content_length_minus_1 =
      ((True3, 49), Expecting_newline_3,
       \<lparr>http_method = ''POST'', target = ''/x'', version = ''HTTP/1.1'',
        headers = [\<lparr>name = ''Host'', val = ''y''\<rparr>,
                   \<lparr>name = ''Content-Length'', val = ''-1''\<rparr>], body = []\<rparr>)"
    by (simp add: example_fields started_fields parse_post_content_length_minus_1)
  have step: "complete example_collaborators started
      (Read_done None post_content_length_minus_1) =
      async_read_body 18446744073709551615
        (started
           \<lparr>m_buffer := fill_buffer (m_buffer started) post_content_length_minus_1,
            outstanding := No_operation,
            m_parser := Expecting_newline_3,
            m_request :=
              \<lparr>http_method = ''POST'', target = ''/x'', version = ''HTTP/1.1'',
               headers = [\<lparr>name = ''Host'', val = ''y''\<rparr>,
                          \<lparr>name = ''Content-Length'', val = ''-1''\<rparr>], body = []\<rparr>\<rparr>)"
    by (simp add: headers_complete_step [OF started_fields(4) len parsed]
        resolve_content_length_def header_eval example_fields digits_minus_1)
  show ?thesis
    by (simp add: run_def step async_read_body_def started_fields example_fields
        digits_minus_1)
qed

text \<open>
  C1. The run of a POST that declares a content length of 5, followed by a read that
  delivers the five bytes \<^verbatim>\<open>hello\<close>: the handler is called once, with a body of
  1024 bytes. \<^verbatim>\<open>handle_read_body_contents\<close> appends the whole of \<^verbatim>\<open>buffer_\<close>,
  from \<^verbatim>\<open>begin()\<close> to \<^verbatim>\<open>end()\<close>, not the bytes transferred; the body starts
  with the five bytes received and goes on with what the buffer held before.
\<close>

theorem body_at_dispatch_is_whole_buffer:
  "map (\<lambda>r. (length (body r), take 5 (body r)))
     (handler_calls (effects (run example_collaborators started
        [Read_done None post_content_length_5, Read_done None ''hello'']))) =
   [(1024, ''hello'')]"
proof -
  define c where
    "c = complete example_collaborators started (Read_done None post_content_length_5)"
  have out: "outstanding c = Read_body_contents 5"
    and buf: "length (m_buffer c) = 1024"
    and calls: "handler_calls (effects c) = []"
    and body: "body (m_request c) = []"
    by (simp_all add: c_def after_post_content_length_5 length_fill_buffer started_fields
        BOOST_HTTP_SERVER_BUFFER_SIZE_def)
  have len: "length ''hello'' \<le> length (m_buffer c)"
    by (simp add: buf)
  have "handler_calls (effects (complete example_collaborators c (Read_done None ''hello''))) =
      [(m_request c)\<lparr>body := fill_buffer (m_buffer c) ''hello''\<rparr>]"
    by (simp add: body_read_step [OF out len] dispatch_def invoke_handler_def
        async_write_response_def handler_calls_append calls body)
  moreover have "take 5 (fill_buffer (m_buffer c) ''hello'') = ''hello''"
    using take_fill_buffer [OF len] by (simp add: eval_nat_numeral)
  ultimately show ?thesis
    by (simp add: run_def c_def [symmetric] length_fill_buffer buf)
qed

text \<open>
  C2. The run of a POST that declares a content length of 5, followed by a read that
  delivers seven bytes (\<^verbatim>\<open>hello\<close> and a line end): the difference
  \<^verbatim>\<open>bytes_to_read - bytes_transferred\<close> wraps around to \<open>2\<^sup>6\<^sup>4 - 2\<close>, which is
  not zero, so the handler is not called although more than five bytes have arrived;
  the connection starts another read and waits for that many bytes.
\<close>

theorem over_read_never_dispatches:
  "handler_calls (effects (run example_collaborators started
     [Read_done None post_content_length_5, Read_done None (''hello'' @ CRLF)])) = [] \<and>
   outstanding (run example_collaborators started
     [Read_done None post_content_length_5, Read_done None (''hello'' @ CRLF)]) =
     Read_body_contents 18446744073709551614 \<and>
   effects (run example_collaborators started
     [Read_done None post_content_length_5, Read_done None (''hello'' @ CRLF)]) =
     [Async_read_some, Async_read_at_least 5, Async_read_some] \<and>
   length (body (m_request (run example_collaborators started
     [Read_done None post_content_length_5, Read_done None (''hello'' @ CRLF)]))) = 1024"
proof -
  define c where
    "c = complete example_collaborators started (Read_done None post_content_length_5)"
  have out: "outstanding c = Read_body_contents 5"
    and buf: "length (m_buffer c) = 1024"
    and eff: "effects c = [Async_read_some, Async_read_at_least 5]"
    and body: "body (m_request c) = []"
    by (simp_all add: c_def after_post_content_length_5 length_fill_buffer started_fields
        BOOST_HTTP_SERVER_BUFFER_SIZE_def)
  have len: "length (''hello'' @ CRLF) \<le> length (m_buffer c)"
    by (simp add: buf CRLF_def)
  have diff: "(5 :: size_t) - of_nat (length (''hello'' @ CRLF)) = 18446744073709551614"
    by (simp add: CRLF_def)
  have step: "complete example_collaborators c (Read_done None (''hello'' @ CRLF)) =
      async_read_some_body 18446744073709551614
        (c\<lparr>m_buffer := fill_buffer (m_buffer c) (''hello'' @ CRLF),
           outstanding := No_operation,
           m_request := (m_request c)\<lparr>body := fill_buffer (m_buffer c) (''hello'' @ CRLF)\<rparr>\<rparr>)"
    using body_read_step [OF out len, of example_collaborators] by (simp only: diff body) simp
  have run: "run example_collaborators started
      [Read_done None post_content_length_5, Read_done None (''hello'' @ CRLF)] =
      complete example_collaborators c (Read_done None (''hello'' @ CRLF))"
    by (simp add: run_def c_def)
  show ?thesis
    unfolding run step
    by (simp add: async_read_some_body_def eff length_fill_buffer buf)
qed

subsection \<open>The connection manager\<close>

lemma resolve_target_keeps:
  "resolve_target net m opts host = Some (a, m1) \<Longrightarrow>
   idle m1 = idle m \<and> handed_out m1 = handed_out m \<and> established m1 = established m"
  by (auto simp: resolve_target_def split: if_splits option.splits)

lemma get_connection_cases:
  assumes "get_connection net m req opts = (res, m')"
  shows "(\<exists>err. res = Inl err \<and> idle m' = idle m \<and> handed_out m' = handed_out m \<and>
            established m' = established m) \<or>
         (\<exists>c. res = Inr c \<and> c \<in> set (idle m) \<and> idle m' = removeAll c (idle m) \<and>
            handed_out m' = c # handed_out m \<and> established m' = established m) \<or>
         (\<exists>c. res = Inr c \<and> instance_id c = established m \<and> idle m' = idle m \<and>
            handed_out m' = c # handed_out m \<and> established m' = Suc (established m))"
proof (cases "resolve_target net m opts
    (fst (snd (if use_proxy opts then (case proxy m of Some px \<Rightarrow> px | None \<Rightarrow> req) else req)))")
  case None
  then show ?thesis using assms by (auto simp: get_connection_def Let_def)
next
  case (Some am)
  obtain a m1 where am: "am = (a, m1)" by (cases am)
  note keeps = resolve_target_keeps [OF Some [unfolded am]]
  show ?thesis
    using assms Some keeps
    by (auto simp: get_connection_def Let_def am split: option.splits if_splits
        dest: find_Some_iff [THEN iffD1])
qed


lemma get_connection_invariant:
  assumes inv: "manager_invariant m" and got: "get_connection net m req opts = (res, m')"
  shows "manager_invariant m'"
proof -
  from get_connection_cases [OF got] consider
    (failed) "idle m' = idle m" "handed_out m' = handed_out m" "established m' = established m"
  | (pooled) c where "c \<in> set (idle m)" "idle m' = removeAll c (idle m)"
      "handed_out m' = c # handed_out m" "established m' = established m"
  | (fresh) c where "instance_id c = established m" "idle m' = idle m"
      "handed_out m' = c # handed_out m" "established m' = Suc (established m)"
    by blast
  then show ?thesis
  proof cases
    case failed
    with inv show ?thesis by (simp add: manager_invariant_def)
  next
    case pooled
    with inv show ?thesis by (auto simp: manager_invariant_def list_all_iff)
  next
    case fresh
    have "c \<notin> set (idle m)"
    proof
      assume "c \<in> set (idle m)"
      then have "instance_id c < established m"
        using inv by (simp add: manager_invariant_def list_all_iff)
      then show False
        using fresh(1) by simp
    qed
    moreover have "\<forall>x \<in> set (idle m) \<union> set (handed_out m). instance_id x < Suc (established m)"
      using inv by (auto simp: manager_invariant_def list_all_iff less_SucI)
    ultimately show ?thesis
      using inv fresh by (auto simp: manager_invariant_def list_all_iff)
  qed
qed

lemma get_connection_avoids:
  assumes av: "avoids old m" and got: "get_connection net m req opts = (res, m')"
  shows "avoids old m' \<and> (\<forall>c. res = Inr c \<longrightarrow> c \<notin> set old)"
proof -
  from get_connection_cases [OF got] consider
    (failed) err where "res = Inl err" "idle m' = idle m" "handed_out m' = handed_out m"
      "established m' = established m"
  | (pooled) c where "res = Inr c" "c \<in> set (idle m)" "idle m' = removeAll c (idle m)"
      "handed_out m' = c # handed_out m" "established m' = established m"
  | (fresh) c where "res = Inr c" "instance_id c = established m" "idle m' = idle m"
      "handed_out m' = c # handed_out m" "established m' = Suc (established m)"
    by blast
  then show ?thesis
  proof cases
    case failed
    with av show ?thesis by (simp add: avoids_def)
  next
    case pooled
    with av show ?thesis by (auto simp: avoids_def list_all_iff)
  next
    case fresh
    have "c \<notin> set old"
      using av fresh(2) by (auto simp: avoids_def list_all_iff)
    moreover have "\<forall>x \<in> set old. instance_id x < Suc (established m)"
      using av by (auto simp: avoids_def list_all_iff less_SucI)
    ultimately show ?thesis
      using av fresh by (auto simp: avoids_def list_all_iff)
  qed
qed

lemma other_calls_invariant:
  assumes "manager_invariant m"
  shows "manager_invariant (clean_completion pooling c m)"
    and "manager_invariant (io_error c m)"
    and "manager_invariant (clear_resolved_cache m)"
    and "manager_invariant (reset m)"
proof -
  show "manager_invariant (clean_completion pooling c m)"
    using assms by (auto simp: manager_invariant_def list_all_iff clean_completion_def)
  show "manager_invariant (io_error c m)"
    using assms by (auto simp: manager_invariant_def list_all_iff io_error_def)
  show "manager_invariant (clear_resolved_cache m)"
    using assms by (simp add: manager_invariant_def clear_resolved_cache_def)
  show "manager_invariant (reset m)"
    using assms by (simp add: manager_invariant_def reset_def)
qed

lemma other_calls_avoid:
  assumes "avoids old m"
  shows "avoids old (clean_completion pooling c m)"
    and "avoids old (io_error c m)"
    and "avoids old (clear_resolved_cache m)"
    and "avoids old (reset m)"
proof -
  show "avoids old (clean_completion pooling c m)"
    using assms by (auto simp: avoids_def list_all_iff clean_completion_def)
  show "avoids old (io_error c m)"
    using assms by (auto simp: avoids_def list_all_iff io_error_def)
  show "avoids old (clear_resolved_cache m)"
    using assms by (simp add: avoids_def clear_resolved_cache_def)
  show "avoids old (reset m)"
    using assms by (auto simp: avoids_def reset_def)
qed

lemma manager_calls_invariant:
  "manager_invariant m \<Longrightarrow> manager_invariant (snd (manager_calls m calls))"
proof (induction m calls rule: manager_calls.induct)
  case (2 m net req opts calls)
  obtain res m1 where got: "get_connection net m req opts = (res, m1)"
    by (cases "get_connection net m req opts")
  have "manager_invariant m1"
    by (rule get_connection_invariant [OF "2.prems" got])
  then show ?case
    using "2.IH" got by (cases res) (auto split: prod.splits)
qed (simp_all add: other_calls_invariant)

lemma manager_calls_avoid:
  "avoids old m \<Longrightarrow> set (fst (manager_calls m calls)) \<inter> set old = {}"
proof (induction m calls rule: manager_calls.induct)
  case (2 m net req opts calls)
  obtain res m1 where got: "get_connection net m req opts = (res, m1)"
    by (cases "get_connection net m req opts")
  have "avoids old m1" and "\<forall>c. res = Inr c \<longrightarrow> c \<notin> set old"
    using get_connection_avoids [OF "2.prems" got] by simp_all
  then show ?case
    using "2.IH" got by (cases res) (auto split: prod.splits)
qed (simp_all add: other_calls_avoid)

lemma new_manager_invariant: "manager_invariant (new_manager px)"
  by (simp add: manager_invariant_def new_manager_def)

lemma reset_avoids: "manager_invariant m \<Longrightarrow> avoids (idle m) (reset m)"
  by (auto simp: manager_invariant_def avoids_def reset_def)

text \<open>
  The pool at work: a connection that has come back to the idle set is returned again
  by the next call for the same destination; after a reset in between, the next call
  establishes a new instance.
\<close>

lemmas manager_eval = get_connection_def resolve_target_def clean_completion_def reset_def
  new_manager_def example_network_def example_endpoint_def example_options_def
  first_connection_def second_connection_def

lemma pool_reuse_example:
  "fst (manager_calls (new_manager None)
     [Get_connection example_network example_endpoint example_options,
      Clean_completion True first_connection,
      Get_connection example_network example_endpoint example_options]) =
   [first_connection, first_connection]"
  by (simp add: manager_eval Let_def)

lemma pool_reset_example:
  "fst (manager_calls (new_manager None)
     [Get_connection example_network example_endpoint example_options,
      Clean_completion True first_connection,
      Reset,
      Get_connection example_network example_endpoint example_options]) =
   [first_connection, second_connection]"
  by (simp add: manager_eval Let_def)

text \<open>
  C9. Take any state that the manager can be in (any sequence of calls from a new
  manager), call \<^verbatim>\<open>reset\<close>, and go on with any sequence of calls. No connection
  that was idle in the pool before the reset is among the connections that
  \<^verbatim>\<open>get_connection\<close> returns afterwards. After \<^verbatim>\<open>reset\<close> the pool and the cache
  of resolved addresses are empty.
\<close>

theorem reset_discards_pooled_connections:
  "set (fst (manager_calls (reset (snd (manager_calls (new_manager px) before))) after)) \<inter>
     set (idle (snd (manager_calls (new_manager px) before))) = {} \<and>
   idle (reset m) = [] \<and> resolved_cache (reset m) = []"
proof -
  have "manager_invariant (snd (manager_calls (new_manager px) before))"
    by (rule manager_calls_invariant [OF new_manager_invariant])
  then have "avoids (idle (snd (manager_calls (new_manager px) before)))
      (reset (snd (manager_calls (new_manager px) before)))"
    by (rule reset_avoids)
  then show ?thesis
    by (simp add: manager_calls_avoid reset_def)
qed

end
